theory Spec2Isabelle
  imports Complex_Main "HOL-Library.AList"
begin

section \<open>SelfEval: a heuristic code-quality scorer (selfeval.py)\<close>

text \<open>
  The module scores a snippet of text against named criteria.  Text is modelled as
  \<^typ>\<open>string\<close>; a character stands for a code point below 256, and the character
  classes below are those of Python's \<open>str\<close> methods and of the \<open>re\<close> module on
  that range.  The host parser \<open>ast.parse\<close> is not part of the module: it is a
  parameter of the model.  The quotient \<open>total_score / max_possible * 100\<close> and the
  documentation ratio are computed over exact rationals.
\<close>

subsection \<open>Characters and the string methods the module uses\<close>

definition is_space :: "char \<Rightarrow> bool" where
  \<comment> \<open>\<open>str.isspace\<close> and the class \<open>\s\<close>\<close>
  "is_space c = (let n = (of_char c :: nat) in
     (9 \<le> n \<and> n \<le> 13) \<or> (28 \<le> n \<and> n \<le> 32) \<or> n = 133 \<or> n = 160)"

definition is_digit :: "char \<Rightarrow> bool" where
  \<comment> \<open>the class \<open>\d\<close>\<close>
  "is_digit c = (let n = (of_char c :: nat) in 48 \<le> n \<and> n \<le> 57)"

definition is_word :: "char \<Rightarrow> bool" where
  \<comment> \<open>the class \<open>\w\<close>: alphanumeric code points and the underscore\<close>
  "is_word c = (let n = (of_char c :: nat) in
     (48 \<le> n \<and> n \<le> 57) \<or> (65 \<le> n \<and> n \<le> 90) \<or> n = 95 \<or> (97 \<le> n \<and> n \<le> 122)
     \<or> n = 170 \<or> n = 178 \<or> n = 179 \<or> n = 181 \<or> n = 185 \<or> n = 186
     \<or> (188 \<le> n \<and> n \<le> 190) \<or> (192 \<le> n \<and> n \<le> 214) \<or> (216 \<le> n \<and> n \<le> 246)
     \<or> (248 \<le> n \<and> n \<le> 255))"

definition in_range :: "char \<Rightarrow> char \<Rightarrow> char \<Rightarrow> bool" where
  \<comment> \<open>a range \<open>[a-z]\<close> of a character set\<close>
  "in_range lo hi c = ((of_char lo :: nat) \<le> of_char c \<and> (of_char c :: nat) \<le> of_char hi)"

definition lower_char :: "char \<Rightarrow> char" where
  "lower_char c = (let n = (of_char c :: nat) in
     if (65 \<le> n \<and> n \<le> 90) \<or> (192 \<le> n \<and> n \<le> 214) \<or> (216 \<le> n \<and> n \<le> 222)
     then char_of (n + 32) else c)"

definition lower :: "string \<Rightarrow> string" where
  \<comment> \<open>\<open>str.lower\<close>\<close>
  "lower s = map lower_char s"

definition strip :: "string \<Rightarrow> string" where
  \<comment> \<open>\<open>str.strip()\<close>: whitespace removed at both ends\<close>
  "strip s = rev (dropWhile is_space (rev (dropWhile is_space s)))"

fun split_acc :: "char \<Rightarrow> string \<Rightarrow> string \<Rightarrow> string list" where
  "split_acc d cur [] = [cur]"
| "split_acc d cur (c # cs) =
     (if c = d then cur # split_acc d [] cs else split_acc d (cur @ [c]) cs)"

definition split_lines :: "string \<Rightarrow> string list" where
  \<comment> \<open>\<open>code.split("\n")\<close>: never empty, the empty text gives one empty line\<close>
  "split_lines s = split_acc (CHR 0x0A) [] s"

definition startswith :: "string \<Rightarrow> string \<Rightarrow> bool" where
  "startswith s p = (take (length p) s = p)"

definition endswith :: "string \<Rightarrow> string \<Rightarrow> bool" where
  "endswith s p = (length p \<le> length s \<and> drop (length s - length p) s = p)"

fun contains :: "string \<Rightarrow> string \<Rightarrow> bool" where
  \<comment> \<open>\<open>sub in s\<close>\<close>
  "contains [] sub = (sub = [])"
| "contains (c # cs) sub = (startswith (c # cs) sub \<or> contains cs sub)"

fun count_from :: "nat \<Rightarrow> string \<Rightarrow> string \<Rightarrow> nat" where
  \<comment> \<open>occurrences of \<open>sub\<close> that do not overlap, left to right; the first argument
      is the number of characters still covered by the occurrence found last\<close>
  "count_from k sub [] = 0"
| "count_from k sub (c # cs) =
     (if k = 0 \<and> sub \<noteq> [] \<and> startswith (c # cs) sub
      then Suc (count_from (length sub - 1) sub cs)
      else count_from (k - 1) sub cs)"

definition count_sub :: "string \<Rightarrow> string \<Rightarrow> nat" where
  \<comment> \<open>\<open>s.count(sub)\<close> for a non-empty \<open>sub\<close>\<close>
  "count_sub s sub = count_from 0 sub s"

fun join :: "string \<Rightarrow> string list \<Rightarrow> string" where
  \<comment> \<open>\<open>sep.join(xs)\<close>\<close>
  "join sep [] = []"
| "join sep [x] = x"
| "join sep (x # y # ys) = x @ sep @ join sep (y # ys)"

definition digit_char :: "nat \<Rightarrow> char" where
  "digit_char d = char_of (48 + d)"

fun str_nat :: "nat \<Rightarrow> string" where
  "str_nat n = (if n < 10 then [digit_char n] else str_nat (n div 10) @ [digit_char (n mod 10)])"

definition str_int :: "int \<Rightarrow> string" where
  \<comment> \<open>\<open>str(n)\<close> of an integer, as an f-string inserts it\<close>
  "str_int i = (if i < 0 then CHR ''-'' # str_nat (nat (- i)) else str_nat (nat i))"

subsection \<open>The regular expressions of the module\<close>

text \<open>
  The patterns of the module use character classes, greedy \<open>*\<close> and \<open>+\<close> on a single
  class, one capture group, the assertions \<open>^\<close>, \<open>$\<close>, \<open>\b\<close> and a negative
  lookahead on one class.  A pattern is an ordered list of alternatives, each a list
  of items; matching is by backtracking in the order of \<open>re\<close>: a greedy
  repetition tries the longest run first, an earlier alternative wins.
\<close>

datatype item =
    One "char \<Rightarrow> bool"       \<comment> \<open>one character of a class\<close>
  | Star "char \<Rightarrow> bool"      \<comment> \<open>greedy \<open>*\<close> of a class\<close>
  | Plus "char \<Rightarrow> bool"      \<comment> \<open>greedy \<open>+\<close> of a class\<close>
  | GOpen                    \<comment> \<open>\<open>(\<close> of group 1\<close>
  | GClose                   \<comment> \<open>\<open>)\<close> of group 1\<close>
  | StrStart                 \<comment> \<open>\<open>^\<close> without \<open>MULTILINE\<close>: the real start of the text\<close>
  | LineStart                \<comment> \<open>\<open>^\<close> with \<open>MULTILINE\<close>\<close>
  | StrEnd                   \<comment> \<open>\<open>$\<close> without \<open>MULTILINE\<close>\<close>
  | WordB                    \<comment> \<open>\<open>\b\<close>\<close>
  | NotAhead "char \<Rightarrow> bool"  \<comment> \<open>\<open>(?!c)\<close> for a class \<open>c\<close>\<close>

type_synonym regex = "item list list"

definition lit :: "string \<Rightarrow> item list" where
  "lit s = map (\<lambda>c. One (\<lambda>x. x = c)) s"

definition is_word_opt :: "char option \<Rightarrow> bool" where
  "is_word_opt p = (case p of None \<Rightarrow> False | Some c \<Rightarrow> is_word c)"

definition peek :: "string \<Rightarrow> char option" where
  "peek s = (case s of [] \<Rightarrow> None | c # _ \<Rightarrow> Some c)"

text \<open>
  \<open>rmatch items prev s (recording, group)\<close> matches the items at the head of \<open>s\<close>,
  where \<open>prev\<close> is the character before \<open>s\<close> in the whole text (\<open>None\<close> at its real
  start).  It returns the text of group 1, the last character before the rest, and the
  rest.
\<close>

fun rmatch :: "item list \<Rightarrow> char option \<Rightarrow> string \<Rightarrow> bool \<times> string
    \<Rightarrow> (string \<times> char option \<times> string) option" where
  "rmatch [] p s (r, g) = Some (g, p, s)"
| "rmatch (One f # is) p [] (r, g) = None"
| "rmatch (One f # is) p (c # cs) (r, g) =
     (if f c then rmatch is (Some c) cs (r, if r then g @ [c] else g) else None)"
| "rmatch (Star f # is) p [] (r, g) = rmatch is p [] (r, g)"
| "rmatch (Star f # is) p (c # cs) (r, g) =
     (if f c then
        (case rmatch (Star f # is) (Some c) cs (r, if r then g @ [c] else g) of
           Some m \<Rightarrow> Some m
         | None \<Rightarrow> rmatch is p (c # cs) (r, g))
      else rmatch is p (c # cs) (r, g))"
| "rmatch (Plus f # is) p [] (r, g) = None"
| "rmatch (Plus f # is) p (c # cs) (r, g) =
     (if f c then rmatch (Star f # is) (Some c) cs (r, if r then g @ [c] else g) else None)"
| "rmatch (GOpen # is) p s (r, g) = rmatch is p s (True, [])"
| "rmatch (GClose # is) p s (r, g) = rmatch is p s (False, g)"
| "rmatch (StrStart # is) p s (r, g) = (if p = None then rmatch is p s (r, g) else None)"
| "rmatch (LineStart # is) p s (r, g) =
     (if p = None \<or> p = Some (CHR 0x0A) then rmatch is p s (r, g) else None)"
| "rmatch (StrEnd # is) p s (r, g) =
     (if s = [] \<or> s = [CHR 0x0A] then rmatch is p s (r, g) else None)"
| "rmatch (WordB # is) p s (r, g) =
     (if is_word_opt p \<noteq> is_word_opt (peek s) then rmatch is p s (r, g) else None)"
| "rmatch (NotAhead f # is) p s (r, g) =
     (case s of [] \<Rightarrow> rmatch is p s (r, g)
      | c # _ \<Rightarrow> if f c then None else rmatch is p s (r, g))"

fun match_alts :: "regex \<Rightarrow> char option \<Rightarrow> string \<Rightarrow> (string \<times> char option \<times> string) option" where
  "match_alts [] p s = None"
| "match_alts (a # as) p s =
     (case rmatch a p s (False, []) of Some m \<Rightarrow> Some m | None \<Rightarrow> match_alts as p s)"

text \<open>
  \<open>findall\<close> scans from left to right; after a match the scan resumes where the match
  ended.  Every pattern of the module consumes a character, so the branch for a match
  that consumed nothing (which advances by one character) is never taken.
\<close>

fun findall_from :: "regex \<Rightarrow> char option \<Rightarrow> string \<Rightarrow> string list" where
  "findall_from re p [] = (case match_alts re p [] of Some (g, _, _) \<Rightarrow> [g] | None \<Rightarrow> [])"
| "findall_from re p (c # cs) =
     (case match_alts re p (c # cs) of
        Some (g, p', rest) \<Rightarrow>
          (if length rest < length (c # cs) then g # findall_from re p' rest
           else g # findall_from re (Some c) cs)
      | None \<Rightarrow> findall_from re (Some c) cs)"

definition findall :: "regex \<Rightarrow> string \<Rightarrow> string list" where
  \<comment> \<open>\<open>re.findall(pattern, s)\<close>: the texts of group 1 (empty for a pattern without group)\<close>
  "findall re s = findall_from re None s"

definition search :: "regex \<Rightarrow> string \<Rightarrow> bool" where
  \<comment> \<open>\<open>re.search(pattern, s)\<close> is not \<open>None\<close>\<close>
  "search re s = (findall re s \<noteq> [])"

definition match_start :: "regex \<Rightarrow> string \<Rightarrow> bool" where
  \<comment> \<open>\<open>re.match(pattern, s)\<close> is not \<open>None\<close>\<close>
  "match_start re s = (match_alts re None s \<noteq> None)"

definition pattern_finditer :: "regex \<Rightarrow> string \<Rightarrow> nat \<Rightarrow> string list" where
  \<comment> \<open>\<open>Pattern.finditer(s, pos)\<close> of a compiled pattern: the scan starts at index
      \<open>pos\<close> (at the end when \<open>pos\<close> is beyond it), and the text before \<open>pos\<close> still
      counts for \<open>^\<close> and \<open>\b\<close>\<close>
  "pattern_finditer re s pos =
     (let k = min pos (length s) in
      findall_from re (if k = 0 then None else Some (s ! (k - 1))) (drop k s))"

subsection \<open>Criteria registry\<close>

definition CRITERIA_DESCRIPTIONS :: "(string \<times> string) list" where
  "CRITERIA_DESCRIPTIONS =
    [(''correctness'', ''Code is free from syntax errors and logical bugs.''),
     (''efficiency'', ''Code uses efficient algorithms and data structures.''),
     (''readability'', ''Code is easy to read and understand.''),
     (''maintainability'', ''Code is easy to maintain and extend.''),
     (''documentation'', ''Code is well-documented with clear explanations.''),
     (''testability'', ''Code is designed to be easily testable.''),
     (''error_handling'', ''Code handles errors and edge cases appropriately.''),
     (''security'', ''Code is secure and protects against common vulnerabilities.''),
     (''modularity'', ''Code is organized into reusable, well-defined modules.''),
     (''best_practices'', ''Code follows language-specific best practices.'')]"

definition DEFAULT_CRITERIA :: "string list" where
  "DEFAULT_CRITERIA =
    [''correctness'', ''efficiency'', ''readability'', ''documentation'', ''best_practices'']"

definition has_key :: "(string \<times> 'v) list \<Rightarrow> string \<Rightarrow> bool" where
  \<comment> \<open>\<open>k in d\<close> for a dictionary \<open>d\<close>\<close>
  "has_key d k = (k \<in> set (map fst d))"

subsection \<open>Syntax analyzer\<close>

text \<open>
  What \<open>ast.parse(code)\<close> does: it returns, raises \<open>SyntaxError\<close> (with its \<open>lineno\<close>,
  which may be \<open>None\<close>, and its \<open>msg\<close>), or raises another \<open>Exception\<close> (with its
  \<open>str\<close>).
\<close>

datatype parse_outcome = Parsed | SyntaxError "int option" string | OtherException string

type_synonym parser = "string \<Rightarrow> parse_outcome"

definition str_lineno :: "int option \<Rightarrow> string" where
  "str_lineno l = (case l of None \<Rightarrow> ''None'' | Some n \<Rightarrow> str_int n)"

definition evaluate_syntactic_correctness :: "parser \<Rightarrow> string \<Rightarrow> int \<times> string" where
  "evaluate_syntactic_correctness parse code =
     (case parse code of
        Parsed \<Rightarrow> (10, ''No syntax errors detected.'')
      | SyntaxError lineno msg \<Rightarrow> (0, ''Syntax error at line '' @ str_lineno lineno @ '': '' @ msg)
      | OtherException e \<Rightarrow> (2, ''Error parsing code: '' @ e))"

subsection \<open>Documentation analyzer\<close>

definition triple_quote :: string where
  "triple_quote = [CHR 0x22, CHR 0x22, CHR 0x22]"

definition docstring_pattern :: regex where
  \<comment> \<open>three double quotes, \<open>[^"]*\<close>, three double quotes\<close>
  "docstring_pattern = [lit triple_quote @ [Star (\<lambda>c. c \<noteq> CHR 0x22)] @ lit triple_quote]"

fun count_doc_lines :: "string list \<Rightarrow> nat \<times> nat \<Rightarrow> nat \<times> nat" where
  \<comment> \<open>the loop over the lines: \<open>(comment_count, code_lines)\<close>\<close>
  "count_doc_lines [] (comment_count, code_lines) = (comment_count, code_lines)"
| "count_doc_lines (l # ls) (comment_count, code_lines) =
     (let line = strip l in
      if line \<noteq> [] \<and> \<not> startswith line triple_quote then
        (if startswith line ''#'' then count_doc_lines ls (comment_count + 1, code_lines)
         else if \<not> endswith line triple_quote then count_doc_lines ls (comment_count, code_lines + 1)
         else count_doc_lines ls (comment_count, code_lines))
      else count_doc_lines ls (comment_count, code_lines))"

definition doc_ratio :: "string \<Rightarrow> rat" where
  "doc_ratio code =
     (let docstrings = findall docstring_pattern code;
          (comment_count, code_lines) = count_doc_lines (split_lines code) (0, 0)
      in of_nat (length docstrings + comment_count) / of_nat (max 1 code_lines))"

definition evaluate_documentation :: "string \<Rightarrow> int \<times> string" where
  "evaluate_documentation code =
     (let docstrings = findall docstring_pattern code in
      if doc_ratio code \<ge> 3 / 10 \<and> length docstrings > 0 then
        (9, ''Code is well-documented with clear explanations.'')
      else if doc_ratio code \<ge> 15 / 100 then
        (6, ''Code has adequate documentation but could be improved.'')
      else (3, ''Code lacks sufficient documentation.''))"

subsection \<open>Efficiency analyzer\<close>

definition for_in :: "item list" where
  \<comment> \<open>\<open>for\s+\w+\s+in\<close>\<close>
  "for_in = lit ''for'' @ [Plus is_space, Plus is_word, Plus is_space] @ lit ''in''"

definition range_len_pattern :: regex where
  \<comment> \<open>\<open>for\s+\w+\s+in\s+range\(len\(\<close>\<close>
  "range_len_pattern = [for_in @ [Plus is_space] @ lit ''range(len('']"

definition nested_loop_pattern :: regex where
  \<comment> \<open>\<open>for\s+\w+\s+in[^:]+:[^\n]*\n[^\n]*\s+for\s+\w+\s+in\<close>\<close>
  "nested_loop_pattern =
     [for_in @ [Plus (\<lambda>c. c \<noteq> CHR '':''), One (\<lambda>c. c = CHR '':''),
                Star (\<lambda>c. c \<noteq> CHR 0x0A), One (\<lambda>c. c = CHR 0x0A),
                Star (\<lambda>c. c \<noteq> CHR 0x0A), Plus is_space] @ for_in]"

definition not_bracket :: "char \<Rightarrow> bool" where
  "not_bracket c = (c \<noteq> CHR '']'' \<and> c \<noteq> CHR ''['')"

definition comprehension_pattern :: regex where
  \<comment> \<open>\<open>\[[^\]\[]+for\s+\w+\s+in[^\]\[]+\]\<close>\<close>
  "comprehension_pattern =
     [lit ''['' @ [Plus not_bracket] @ for_in @ [Plus not_bracket] @ lit '']'']"

text \<open>Each check of an analyzer is a step on its running score and its list of issues.\<close>

definition eff_increment :: "string \<Rightarrow> int \<times> string list \<Rightarrow> int \<times> string list" where
  "eff_increment code = (\<lambda>(score, issues).
     if contains code ''+= 1'' \<and> \<not> contains (lower code) ''counter''
     then (score - 1,
           issues @ [''Consider using more efficient increment methods where applicable''])
     else (score, issues))"

definition eff_range_len :: "string \<Rightarrow> int \<times> string list \<Rightarrow> int \<times> string list" where
  "eff_range_len code = (\<lambda>(score, issues).
     if search range_len_pattern code
     then (score - 1, issues @ [''Using range(len()) is less readable than direct iteration''])
     else (score, issues))"

definition eff_nested :: "string \<Rightarrow> int \<times> string list \<Rightarrow> int \<times> string list" where
  "eff_nested code = (\<lambda>(score, issues).
     let nested_loop_count = length (findall nested_loop_pattern code) in
     if nested_loop_count > 1
     then (score - int (min nested_loop_count 3),
           issues @ [''Found '' @ str_nat nested_loop_count
                     @ '' nested loops; consider optimizing if processing large data''])
     else (score, issues))"

definition eff_comprehensions :: "string \<Rightarrow> int \<times> string list \<Rightarrow> int \<times> string list" where
  "eff_comprehensions code = (\<lambda>(score, issues).
     let comprehensions = length (findall comprehension_pattern code) in
     if comprehensions > 0 then (score + int (min comprehensions 2), issues)
     else (score, issues))"

definition eff_bucket :: "int \<times> string list \<Rightarrow> int \<times> string" where
  "eff_bucket = (\<lambda>(score, issues).
     if score \<ge> 8 then (score, ''Code appears to be efficient with good algorithmic choices.'')
     else if score \<ge> 5 then
       (score, ''Code has reasonable efficiency but could be improved. ''
               @ (if issues \<noteq> [] then join [CHR 0x0A] issues else []))
     else (score, ''Code has potential efficiency issues: ''
                  @ (if issues \<noteq> [] then join [CHR 0x0A] issues else [])))"

definition evaluate_efficiency :: "string \<Rightarrow> int \<times> string" where
  "evaluate_efficiency code =
     eff_bucket (eff_comprehensions code (eff_nested code
       (eff_range_len code (eff_increment code (7, [])))))"

subsection \<open>Readability analyzer\<close>

definition ident_start_lower :: "char \<Rightarrow> bool" where
  \<comment> \<open>\<open>[a-z_]\<close>\<close>
  "ident_start_lower c = (in_range (CHR ''a'') (CHR ''z'') c \<or> c = CHR ''_'')"

definition ident_rest_lower :: "char \<Rightarrow> bool" where
  \<comment> \<open>\<open>[a-z0-9_]\<close>\<close>
  "ident_rest_lower c =
     (in_range (CHR ''a'') (CHR ''z'') c \<or> in_range (CHR ''0'') (CHR ''9'') c \<or> c = CHR ''_'')"

definition ident_start :: "char \<Rightarrow> bool" where
  \<comment> \<open>\<open>[a-zA-Z_]\<close>\<close>
  "ident_start c =
     (in_range (CHR ''a'') (CHR ''z'') c \<or> in_range (CHR ''A'') (CHR ''Z'') c \<or> c = CHR ''_'')"

definition ident_rest :: "char \<Rightarrow> bool" where
  \<comment> \<open>\<open>[a-zA-Z0-9_]\<close>\<close>
  "ident_rest c =
     (in_range (CHR ''a'') (CHR ''z'') c \<or> in_range (CHR ''A'') (CHR ''Z'') c
      \<or> in_range (CHR ''0'') (CHR ''9'') c \<or> c = CHR ''_'')"

definition variable_pattern :: regex where
  \<comment> \<open>\<open>\b([a-z_][a-z0-9_]*) *=[^=]\<close>\<close>
  "variable_pattern =
     [[WordB, GOpen, One ident_start_lower, Star ident_rest_lower, GClose,
       Star (\<lambda>c. c = CHR '' ''), One (\<lambda>c. c = CHR ''=''), One (\<lambda>c. c \<noteq> CHR ''='')]]"

definition func_pattern :: regex where
  \<comment> \<open>\<open>def\s+([a-zA-Z_][a-zA-Z0-9_]*)\<close>\<close>
  "func_pattern = [lit ''def'' @ [Plus is_space, GOpen, One ident_start, Star ident_rest, GClose]]"

definition snake_case_pattern :: regex where
  \<comment> \<open>\<open>^[a-z][a-z0-9_]*$\<close>\<close>
  "snake_case_pattern =
     [[StrStart, One (in_range (CHR ''a'') (CHR ''z'')), Star ident_rest_lower, StrEnd]]"

definition indent_pattern :: regex where
  \<comment> \<open>\<open>^( *)\S\<close>, compiled without flags\<close>
  "indent_pattern =
     [[StrStart, GOpen, Star (\<lambda>c. c = CHR '' ''), GClose, One (\<lambda>c. \<not> is_space c)]]"

definition MULTILINE :: nat where
  \<comment> \<open>the value of the flag \<open>re.MULTILINE\<close>\<close>
  "MULTILINE = 8"

definition long_lines :: "string \<Rightarrow> nat" where
  "long_lines code = length (filter (\<lambda>line. length (strip line) > 100) (split_lines code))"

definition read_long_lines :: "string \<Rightarrow> int \<times> string list \<Rightarrow> int \<times> string list" where
  "read_long_lines code = (\<lambda>(score, issues).
     if long_lines code > 0
     then (score - int (min (long_lines code) 3),
           issues @ [''Found '' @ str_nat (long_lines code)
                     @ '' lines exceeding recommended length''])
     else (score, issues))"

definition short_vars :: "string \<Rightarrow> string list" where
  "short_vars code =
     filter (\<lambda>var. length var < 3 \<and> var \<notin> set [''i'', ''j'', ''k'', ''x'', ''y'', ''z''])
       (findall variable_pattern code)"

definition read_short_vars :: "string \<Rightarrow> int \<times> string list \<Rightarrow> int \<times> string list" where
  "read_short_vars code = (\<lambda>(score, issues).
     if short_vars code \<noteq> []
     then (score - int (min (length (short_vars code)) 2),
           issues @ [''Found '' @ str_nat (length (short_vars code))
                     @ '' variables with overly short names''])
     else (score, issues))"

definition non_snake_case :: "string \<Rightarrow> string list" where
  "non_snake_case code =
     filter (\<lambda>f. \<not> match_start snake_case_pattern f) (findall func_pattern code)"

definition read_func_names :: "string \<Rightarrow> int \<times> string list \<Rightarrow> int \<times> string list" where
  "read_func_names code = (\<lambda>(score, issues).
     if non_snake_case code \<noteq> []
     then (score - int (min (length (non_snake_case code)) 2),
           issues @ [''Found '' @ str_nat (length (non_snake_case code))
                     @ '' function names not using snake_case''])
     else (score, issues))"

definition indents :: "string \<Rightarrow> nat list" where
  \<comment> \<open>\<open>[len(m.group(1)) for m in indent_pattern.finditer(code, re.MULTILINE) if m.group(1)]\<close>:
      the second argument of a compiled pattern's \<open>finditer\<close> is the start position\<close>
  "indents code =
     map length (filter (\<lambda>g. g \<noteq> []) (pattern_finditer indent_pattern code MULTILINE))"

definition read_indent :: "string \<Rightarrow> int \<times> string list \<Rightarrow> int \<times> string list" where
  "read_indent code = (\<lambda>(score, issues).
     if indents code \<noteq> [] \<and> list_ex (\<lambda>i. i mod 4 \<noteq> 0) (indents code)
     then (score - 2, issues)
     else (score, issues))"

definition read_bucket :: "int \<times> string list \<Rightarrow> int \<times> string" where
  "read_bucket = (\<lambda>(score, issues).
     if score \<ge> 8 then (score, ''Code is very readable with good naming and formatting.'')
     else if score \<ge> 5 then
       (score, ''Code has reasonable readability but could be improved. ''
               @ (if issues \<noteq> [] then join [CHR 0x0A] issues else []))
     else (score, ''Code has readability issues: ''
                  @ (if issues \<noteq> [] then join [CHR 0x0A] issues else [])))"

definition evaluate_readability :: "string \<Rightarrow> int \<times> string" where
  "evaluate_readability code =
     read_bucket (read_indent code (read_func_names code
       (read_short_vars code (read_long_lines code (7, [])))))"

subsection \<open>Best-practices analyzer\<close>

definition global_var_pattern :: regex where
  \<comment> \<open>\<open>^([a-zA-Z_][a-zA-Z0-9_]*)\s*=[^=]\<close> with \<open>MULTILINE\<close>\<close>
  "global_var_pattern =
     [[LineStart, GOpen, One ident_start, Star ident_rest, GClose,
       Star is_space, One (\<lambda>c. c = CHR ''=''), One (\<lambda>c. c \<noteq> CHR ''='')]]"

definition magic_before :: "char \<Rightarrow> bool" where
  \<comment> \<open>\<open>[^\w\d\.]\<close>\<close>
  "magic_before c = (\<not> (is_word c \<or> is_digit c \<or> c = CHR ''.''))"

definition magic_after :: "char \<Rightarrow> bool" where
  \<comment> \<open>\<open>[\d\.]\<close>\<close>
  "magic_after c = (is_digit c \<or> c = CHR ''.'')"

definition magic_number_pattern :: regex where
  \<comment> \<open>\<open>[^\w\d\.]([2-9]|[1-9]\d+)(?![\d\.])\<close>: the alternation of the group, each
      branch with what precedes and follows it\<close>
  "magic_number_pattern =
     [[One magic_before, GOpen, One (in_range (CHR ''2'') (CHR ''9'')), GClose,
       NotAhead magic_after],
      [One magic_before, GOpen, One (in_range (CHR ''1'') (CHR ''9'')), Plus is_digit, GClose,
       NotAhead magic_after]]"

type_synonym bp_state = "int \<times> string list \<times> string list"
  \<comment> \<open>\<open>(score, issues, positives)\<close>\<close>

definition bp_globals :: "string \<Rightarrow> bp_state \<Rightarrow> bp_state" where
  "bp_globals code = (\<lambda>(score, issues, positives).
     let global_vars = findall global_var_pattern code in
     if length global_vars > 3
     then (score - int (min (length global_vars - 3) 2),
           issues @ [''Uses '' @ str_nat (length global_vars) @ '' global variables''], positives)
     else (score, issues, positives))"

definition bp_magic :: "string \<Rightarrow> bp_state \<Rightarrow> bp_state" where
  "bp_magic code = (\<lambda>(score, issues, positives).
     let magic_numbers = findall magic_number_pattern code in
     if length magic_numbers > 5
     then (score - int (min (length magic_numbers div 5) 2),
           issues @ [''Contains '' @ str_nat (length magic_numbers)
                     @ '' magic numbers that should be constants''], positives)
     else (score, issues, positives))"

definition bp_exceptions :: "string \<Rightarrow> bp_state \<Rightarrow> bp_state" where
  "bp_exceptions code = (\<lambda>(score, issues, positives).
     let try_blocks = count_sub code ''try:'';
         except_blocks = count_sub code ''except'' in
     if try_blocks > 0 \<and> try_blocks = except_blocks \<and> \<not> contains code ''except:''
     then (score + 1, issues, positives @ [''Uses proper exception handling''])
     else if contains code ''except:''
     then (score - 1,
           issues @ [''Uses bare except clauses without specifying exception types''], positives)
     else (score, issues, positives))"

definition bp_with :: "string \<Rightarrow> bp_state \<Rightarrow> bp_state" where
  "bp_with code = (\<lambda>(score, issues, positives).
     let with_count = count_sub code ''with'' in
     if with_count > 0
     then (score + int (min with_count 2), issues,
           positives @ [''Uses context managers ('' @ str_nat with_count @ '' with statements)''])
     else (score, issues, positives))"

definition bp_bucket :: "bp_state \<Rightarrow> int \<times> string" where
  "bp_bucket = (\<lambda>(score, issues, positives).
     if score \<ge> 8 then (score, ''Code follows best practices well. '' @ join '', '' positives)
     else if score \<ge> 5 then
       (score, ''Code follows most best practices but has some issues. '' @ join '', '' issues)
     else (score, ''Code has several best practice issues: '' @ join '', '' issues))"

definition bp_checks :: "string \<Rightarrow> bp_state" where
  "bp_checks code =
     bp_with code (bp_exceptions code (bp_magic code (bp_globals code (7, [], []))))"

definition evaluate_best_practices :: "string \<Rightarrow> int \<times> string" where
  "evaluate_best_practices code = bp_bucket (bp_checks code)"

subsection \<open>Aggregator\<close>

record criterion_result =
  score :: int
  max_score_c :: int   \<comment> \<open>the entry's \<open>max_score\<close>\<close>
  message :: string

text \<open>
  The dictionary of results keeps the order of insertion; storing under a key that is
  present replaces the value in place, which is what \<^const>\<open>AList.update\<close> does.
\<close>

type_synonym results = "(string \<times> criterion_result) list"

record report =
  total_score :: int
  max_score :: int
  percentage :: rat
  criteria_results :: results
  summary :: string

definition effective_criteria :: "string list option \<Rightarrow> string list" where
  \<comment> \<open>\<open>if not criteria: criteria = DEFAULT_CRITERIA\<close>\<close>
  "effective_criteria criteria =
     (case criteria of None \<Rightarrow> DEFAULT_CRITERIA
      | Some cs \<Rightarrow> if cs = [] then DEFAULT_CRITERIA else cs)"

definition valid_criteria :: "string list option \<Rightarrow> string list" where
  \<comment> \<open>\<open>[c for c in criteria if c in CRITERIA_DESCRIPTIONS]\<close>\<close>
  "valid_criteria criteria =
     filter (\<lambda>c. has_key CRITERIA_DESCRIPTIONS c) (effective_criteria criteria)"

definition not_evaluated :: criterion_result where
  "not_evaluated =
     \<lparr>score = 0, max_score_c = 10, message = ''Not evaluated due to syntax errors''\<rparr>"

fun stamp_unevaluated :: "string list \<Rightarrow> results \<Rightarrow> results" where
  \<comment> \<open>the loop of the short circuit\<close>
  "stamp_unevaluated [] res = res"
| "stamp_unevaluated (c # cs) res =
     (if c \<noteq> ''correctness'' \<and> \<not> has_key res c
      then stamp_unevaluated cs (AList.update c not_evaluated res)
      else stamp_unevaluated cs res)"

definition evaluate_criterion :: "string \<Rightarrow> string \<Rightarrow> int \<times> string" where
  \<comment> \<open>the chain of \<open>if\<close>/\<open>elif\<close> in the loop over the criteria\<close>
  "evaluate_criterion code criterion =
     (if criterion = ''documentation'' then evaluate_documentation code
      else if criterion = ''efficiency'' then evaluate_efficiency code
      else if criterion = ''readability'' then evaluate_readability code
      else if criterion = ''best_practices'' then evaluate_best_practices code
      else (5, ''Basic '' @ criterion @ '' check - detailed evaluation not implemented yet.''))"

fun process_criteria :: "string \<Rightarrow> string list \<Rightarrow> results \<times> int \<times> int \<Rightarrow> results \<times> int \<times> int" where
  \<comment> \<open>the loop over the criteria, on \<open>(results, total_score, max_possible)\<close>\<close>
  "process_criteria code [] st = st"
| "process_criteria code (criterion # cs) (res, tot, max_possible) =
     (if criterion = ''correctness'' \<and> has_key res ''correctness''
      then process_criteria code cs (res, tot, max_possible)
      else
        (let (sc, msg) = evaluate_criterion code criterion in
         process_criteria code cs
           (AList.update criterion \<lparr>score = sc, max_score_c = 10, message = msg\<rparr> res,
            tot + sc, max_possible + 10)))"

definition percentage_of :: "int \<Rightarrow> int \<Rightarrow> rat" where
  \<comment> \<open>\<open>(total_score / max_possible) * 100 if max_possible > 0 else 0\<close>\<close>
  "percentage_of tot max_possible =
     (if max_possible > 0 then (of_int tot / of_int max_possible) * 100 else 0)"

definition summary_of :: "rat \<Rightarrow> string" where
  "summary_of pct =
     (if pct \<ge> 80 then ''High-quality code that follows good practices in most areas.''
      else if pct \<ge> 60 then ''Solid code with some areas for improvement.''
      else if pct \<ge> 40 then ''Code needs improvement in several key areas.''
      else ''Code has significant issues that should be addressed.'')"

definition full_report :: "string \<Rightarrow> string list \<Rightarrow> results \<times> int \<times> int \<Rightarrow> report" where
  \<comment> \<open>from the loop over the criteria to the final \<open>return\<close>\<close>
  "full_report code valid st =
     (let (res, tot, max_possible) = process_criteria code valid st;
          pct = percentage_of tot max_possible
      in \<lparr>total_score = tot, max_score = max_possible, percentage = pct,
          criteria_results = res, summary = summary_of pct\<rparr>)"

definition evaluate_code :: "parser \<Rightarrow> string \<Rightarrow> string list option \<Rightarrow> report" where
  "evaluate_code parse code criteria =
     (let valid = valid_criteria criteria in
      if ''correctness'' \<in> set valid then
        (let (sc, msg) = evaluate_syntactic_correctness parse code;
             res = AList.update ''correctness''
                     \<lparr>score = sc, max_score_c = 10, message = msg\<rparr> [];
             tot = 0 + sc;
             max_possible = 0 + 10
         in if sc < 3 then
              \<lparr>total_score = tot,
               max_score = int (length valid) * 10,
               percentage = percentage_of tot max_possible,
               criteria_results = stamp_unevaluated valid res,
               summary = ''Code has syntax errors that need to be fixed before other aspects can be evaluated.''\<rparr>
            else full_report code valid (res, tot, max_possible))
      else full_report code valid ([], 0, 0))"

subsection \<open>Entry point\<close>

record params =
  code_param :: "string option"          \<comment> \<open>the entry \<open>code\<close> of the bag, when present\<close>
  criteria_param :: "string list option"  \<comment> \<open>the entry \<open>criteria\<close>, when present\<close>

datatype run_result =
    Failed string string     \<comment> \<open>\<open>{error, status}\<close>\<close>
  | Success report string    \<comment> \<open>\<open>{evaluation, status}\<close>\<close>

definition run :: "parser \<Rightarrow> params \<Rightarrow> run_result" where
  "run parse ps =
     (let code = (case code_param ps of None \<Rightarrow> [] | Some c \<Rightarrow> c);
          criteria = criteria_param ps
      in if code = [] then Failed ''Missing code parameter'' ''failed''
         else Success (evaluate_code parse code criteria) ''success'')"

subsection \<open>Notions used in the properties\<close>

text \<open>A list without its duplicates, the first occurrence of each element kept.\<close>

fun dedup :: "'a list \<Rightarrow> 'a list" where
  "dedup [] = []"
| "dedup (x # xs) = x # dedup (filter (\<lambda>y. y \<noteq> x) xs)"

text \<open>The entry that the loop over the criteria stores for a criterion.\<close>

definition criterion_entry :: "string \<Rightarrow> string \<Rightarrow> criterion_result" where
  "criterion_entry code c =
     \<lparr>score = fst (evaluate_criterion code c), max_score_c = 10,
      message = snd (evaluate_criterion code c)\<rparr>"

text \<open>The dictionary of results alone, as the loop over the criteria builds it.\<close>

fun process_results :: "string \<Rightarrow> string list \<Rightarrow> results \<Rightarrow> results" where
  "process_results code [] res = res"
| "process_results code (c # cs) res =
     (if c = ''correctness'' \<and> has_key res ''correctness''
      then process_results code cs res
      else process_results code cs (AList.update c (criterion_entry code c) res))"

text \<open>
  The value of the variable \<open>max_possible\<close> when the report is built: the denominator
  of the percentage.
\<close>

definition max_possible_final :: "parser \<Rightarrow> string \<Rightarrow> string list option \<Rightarrow> int" where
  "max_possible_final parse code criteria =
     (let valid = valid_criteria criteria in
      if ''correctness'' \<in> set valid then
        (let (sc, msg) = evaluate_syntactic_correctness parse code;
             res = AList.update ''correctness''
                     \<lparr>score = sc, max_score_c = 10, message = msg\<rparr> []
         in if sc < 3 then 0 + 10
            else snd (snd (process_criteria code valid (res, 0 + sc, 0 + 10))))
      else snd (snd (process_criteria code valid ([], 0, 0))))"

text \<open>A criterion whose next occurrence in the loop leaves the dictionary as it is.\<close>

definition settled :: "string \<Rightarrow> string \<Rightarrow> results \<Rightarrow> bool" where
  "settled code c res =
     (if c = ''correctness'' then has_key res c
      else map_of res c = Some (criterion_entry code c))"

text \<open>Every entry of a dictionary of results has a score from 0 to 10.\<close>

definition scores_in_range :: "results \<Rightarrow> bool" where
  "scores_in_range res = list_all (\<lambda>(c, r). 0 \<le> score r \<and> score r \<le> 10) res"

text \<open>
  The widths that the indentation check is written for: the leading blanks of every
  line that has some, found by the same pattern with \<open>MULTILINE\<close> in force and scanned
  from the start of the text.
\<close>

definition indents_multiline :: "string \<Rightarrow> nat list" where
  "indents_multiline code =
     map length (filter (\<lambda>g. g \<noteq> [])
       (findall [[LineStart, GOpen, Star (\<lambda>c. c = CHR '' ''), GClose, One (\<lambda>c. \<not> is_space c)]]
          code))"

text \<open>The number that a string of decimal digits denotes.\<close>

definition decimal_value :: "string \<Rightarrow> nat" where
  "decimal_value s = foldl (\<lambda>a c. 10 * a + (of_char c - 48)) 0 s"

section \<open>Properties\<close>

subsection \<open>Syntax analyzer\<close>

text \<open>The decimal digits that \<open>str\<close> gives for a number denote it.\<close>

lemma digit_char_value:
  assumes "d < 10"
  shows "of_char (digit_char d) = 48 + d" and "is_digit (digit_char d)"
  using assms by (simp_all add: digit_char_def is_digit_def)

lemma decimal_value_snoc:
  "decimal_value (s @ [c]) = 10 * decimal_value s + (of_char c - 48)"
  by (simp add: decimal_value_def)

lemma str_nat_digits:
  "decimal_value (str_nat n) = n \<and> list_all is_digit (str_nat n) \<and> str_nat n \<noteq> []"
proof (induction n rule: str_nat.induct)
  case (1 n)
  show ?case
  proof (cases "n < 10")
    case True
    then have "str_nat n = [digit_char n]"
      by (subst str_nat.simps) simp
    then show ?thesis
      using digit_char_value [OF True] by (simp add: decimal_value_def del: str_nat.simps)
  next
    case False
    then have s: "str_nat n = str_nat (n div 10) @ [digit_char (n mod 10)]"
      by (subst str_nat.simps) simp
    have d: "of_char (digit_char (n mod 10)) = 48 + n mod 10"
      "is_digit (digit_char (n mod 10))"
      by (simp_all add: digit_char_value)
    show ?thesis
      using "1.IH" [OF False] by (simp add: s d decimal_value_snoc del: str_nat.simps)
  qed
qed

text \<open>
  Claim C5.  For every text the syntax analyzer returns exactly one of three outcomes,
  one for each thing the parser can do: score 10 with the message "No syntax errors
  detected." when the text parses; score 0 when the parser raises a syntax error, with
  a message that holds the line number of the error in decimal digits (digits that
  denote that number) followed by the parser's diagnostic; score 2 with a message that
  holds the text of the error when the parser raises anything else.
\<close>

theorem evaluate_syntactic_correctness_outcomes:
  "(parse code = Parsed \<longrightarrow>
      evaluate_syntactic_correctness parse code = (10, ''No syntax errors detected.''))
   \<and> (\<forall>n msg. parse code = SyntaxError (Some n) msg \<longrightarrow> 0 \<le> n \<longrightarrow>
      evaluate_syntactic_correctness parse code
        = (0, ''Syntax error at line '' @ str_int n @ '': '' @ msg)
      \<and> list_all is_digit (str_int n) \<and> str_int n \<noteq> []
      \<and> int (decimal_value (str_int n)) = n)
   \<and> (\<forall>l msg. parse code = SyntaxError l msg \<longrightarrow>
      fst (evaluate_syntactic_correctness parse code) = 0)
   \<and> (\<forall>e. parse code = OtherException e \<longrightarrow>
      evaluate_syntactic_correctness parse code = (2, ''Error parsing code: '' @ e))
   \<and> (fst (evaluate_syntactic_correctness parse code) = 10) = (parse code = Parsed)
   \<and> (fst (evaluate_syntactic_correctness parse code) = 0)
       = (\<exists>l msg. parse code = SyntaxError l msg)
   \<and> (fst (evaluate_syntactic_correctness parse code) = 2)
       = (\<exists>e. parse code = OtherException e)"
proof -
  have "list_all is_digit (str_int n) \<and> str_int n \<noteq> [] \<and> int (decimal_value (str_int n)) = n"
    if "0 \<le> n" for n
    using that str_nat_digits [of "nat n"] by (simp add: str_int_def del: str_nat.simps)
  then show ?thesis
    by (cases "parse code")
       (simp_all add: evaluate_syntactic_correctness_def str_lineno_def)
qed

theorem evaluate_syntactic_correctness_outcomes_witness:
  "evaluate_syntactic_correctness (\<lambda>_. Parsed) ''x = 1'' = (10, ''No syntax errors detected.'')
   \<and> evaluate_syntactic_correctness (\<lambda>_. SyntaxError (Some 12) ''invalid syntax'') ''x = (''
       = (0, ''Syntax error at line 12: invalid syntax'')
   \<and> evaluate_syntactic_correctness (\<lambda>_. SyntaxError (Some 307) ''unexpected EOF'') ''f(''
       = (0, ''Syntax error at line 307: unexpected EOF'')
   \<and> evaluate_syntactic_correctness (\<lambda>_. OtherException ''too deep'') ''((((''
       = (2, ''Error parsing code: too deep'')"
proof -
  have d: "str_int 12 = ''12''" "str_int 307 = ''307''"
    by code_simp+
  have a: "evaluate_syntactic_correctness (\<lambda>_. Parsed) ''x = 1''
      = (10, ''No syntax errors detected.'')"
    using evaluate_syntactic_correctness_outcomes [of "\<lambda>_. Parsed" "''x = 1''"] by simp
  have b: "evaluate_syntactic_correctness (\<lambda>_. SyntaxError (Some 12) ''invalid syntax'') ''x = (''
      = (0, ''Syntax error at line '' @ str_int 12 @ '': '' @ ''invalid syntax'')"
    using evaluate_syntactic_correctness_outcomes
      [of "\<lambda>_. SyntaxError (Some 12) ''invalid syntax''" "''x = (''"] by simp
  have c: "evaluate_syntactic_correctness (\<lambda>_. SyntaxError (Some 307) ''unexpected EOF'') ''f(''
      = (0, ''Syntax error at line '' @ str_int 307 @ '': '' @ ''unexpected EOF'')"
    using evaluate_syntactic_correctness_outcomes
      [of "\<lambda>_. SyntaxError (Some 307) ''unexpected EOF''" "''f(''"] by simp
  have e: "evaluate_syntactic_correctness (\<lambda>_. OtherException ''too deep'') ''((((''
      = (2, ''Error parsing code: too deep'')"
    using evaluate_syntactic_correctness_outcomes
      [of "\<lambda>_. OtherException ''too deep''" "''((((''"] by simp
  show ?thesis
    using a b c e by (simp add: d)
qed

subsection \<open>Entry point\<close>

text \<open>
  Claim C8.  A parameter bag whose code is missing or empty gives exactly the error
  envelope (error "Missing code parameter", status "failed"), whatever the parser and the
  analyzers would do; a bag with non-empty code gives the envelope with status
  "success" that holds the report of \<open>evaluate_code\<close>.
\<close>

theorem run_outcomes:
  "(code_param ps = None \<or> code_param ps = Some [] \<longrightarrow>
      run parse ps = Failed ''Missing code parameter'' ''failed'')
   \<and> (\<forall>c. code_param ps = Some c \<longrightarrow> c \<noteq> [] \<longrightarrow>
      run parse ps = Success (evaluate_code parse c (criteria_param ps)) ''success'')"
  by (auto simp: run_def)

theorem run_outcomes_witness:
  "run (\<lambda>_. Parsed) \<lparr>code_param = None, criteria_param = None\<rparr>
     = Failed ''Missing code parameter'' ''failed''
   \<and> run (\<lambda>_. Parsed) \<lparr>code_param = Some [], criteria_param = Some [''security'']\<rparr>
     = Failed ''Missing code parameter'' ''failed''
   \<and> run (\<lambda>_. Parsed) \<lparr>code_param = Some ''pass'', criteria_param = Some [''security'']\<rparr>
     = Success \<lparr>total_score = 5, max_score = 10, percentage = 50,
          criteria_results =
            [(''security'', \<lparr>score = 5, max_score_c = 10,
               message = ''Basic security check - detailed evaluation not implemented yet.''\<rparr>)],
          summary = ''Code needs improvement in several key areas.''\<rparr> ''success''"
proof -
  let ?p = "\<lambda>_ :: string. Parsed"
  have a: "run ?p \<lparr>code_param = None, criteria_param = None\<rparr>
     = Failed ''Missing code parameter'' ''failed''"
    using run_outcomes [of "\<lparr>code_param = None, criteria_param = None\<rparr>" ?p] by simp
  have b: "run ?p \<lparr>code_param = Some [], criteria_param = Some [''security'']\<rparr>
     = Failed ''Missing code parameter'' ''failed''"
    using run_outcomes [of "\<lparr>code_param = Some [], criteria_param = Some [''security'']\<rparr>" ?p]
    by simp
  have c: "run ?p \<lparr>code_param = Some ''pass'', criteria_param = Some [''security'']\<rparr>
     = Success (evaluate_code ?p ''pass'' (Some [''security''])) ''success''"
    using run_outcomes [of "\<lparr>code_param = Some ''pass'', criteria_param = Some [''security'']\<rparr>" ?p]
    by simp
  have d: "evaluate_code ?p ''pass'' (Some [''security'']) =
     \<lparr>total_score = 5, max_score = 10, percentage = 50,
          criteria_results =
            [(''security'', \<lparr>score = 5, max_score_c = 10,
               message = ''Basic security check - detailed evaluation not implemented yet.''\<rparr>)],
          summary = ''Code needs improvement in several key areas.''\<rparr>"
    by (simp add: evaluate_code_def valid_criteria_def effective_criteria_def has_key_def
        CRITERIA_DESCRIPTIONS_def full_report_def evaluate_criterion_def percentage_of_def
        summary_of_def)
  show ?thesis using a b c d by simp
qed

subsection \<open>The indentation check\<close>

text \<open>
  The compiled pattern's \<open>finditer\<close> is given \<open>re.MULTILINE\<close> where it takes the start
  position, so the scan starts at index 8 (or at the end of a shorter text) and the
  pattern is still anchored at the real start of the text: it finds nothing.
\<close>

lemma findall_from_indent_pattern_inside:
  "findall_from indent_pattern (Some c) s = []"
  by (induction s arbitrary: c) (simp_all add: indent_pattern_def)

lemma pattern_finditer_indent_pattern:
  assumes "0 < pos"
  shows "pattern_finditer indent_pattern s pos = []"
proof (cases s)
  case Nil
  then show ?thesis
    by (simp add: pattern_finditer_def indent_pattern_def)
next
  case (Cons c cs)
  have ne: "(min pos (length s) = 0) = False"
    using Cons assms by (simp add: min_def)
  show ?thesis
    unfolding pattern_finditer_def Let_def ne if_False
    by (rule findall_from_indent_pattern_inside)
qed

lemma indents_empty: "indents code = []"
  by (simp add: indents_def MULTILINE_def pattern_finditer_indent_pattern)

lemma read_indent_id: "read_indent code st = st"
  by (cases st) (simp add: read_indent_def indents_empty)


subsection \<open>The range of each analyzer's score\<close>

lemma evaluate_documentation_score:
  "fst (evaluate_documentation code) \<in> {3, 6, 9}"
  by (simp add: evaluate_documentation_def Let_def)

lemma eff_increment_score:
  "fst st - 1 \<le> fst (eff_increment code st) \<and> fst (eff_increment code st) \<le> fst st"
  by (cases st) (simp add: eff_increment_def)

lemma eff_range_len_score:
  "fst st - 1 \<le> fst (eff_range_len code st) \<and> fst (eff_range_len code st) \<le> fst st"
  by (cases st) (simp add: eff_range_len_def)

lemma eff_nested_score:
  "fst st - 3 \<le> fst (eff_nested code st) \<and> fst (eff_nested code st) \<le> fst st"
  by (cases st) (simp add: eff_nested_def Let_def)

lemma eff_comprehensions_score:
  "fst st \<le> fst (eff_comprehensions code st) \<and> fst (eff_comprehensions code st) \<le> fst st + 2"
  by (cases st) (simp add: eff_comprehensions_def Let_def)

lemma eff_bucket_score: "fst (eff_bucket st) = fst st"
  by (cases st) (simp add: eff_bucket_def)

lemma read_long_lines_score:
  "fst st - 3 \<le> fst (read_long_lines code st) \<and> fst (read_long_lines code st) \<le> fst st"
  by (cases st) (simp add: read_long_lines_def)

lemma read_short_vars_score:
  "fst st - 2 \<le> fst (read_short_vars code st) \<and> fst (read_short_vars code st) \<le> fst st"
  by (cases st) (simp add: read_short_vars_def)

lemma read_func_names_score:
  "fst st - 2 \<le> fst (read_func_names code st) \<and> fst (read_func_names code st) \<le> fst st"
  by (cases st) (simp add: read_func_names_def)

lemma read_bucket_score: "fst (read_bucket st) = fst st"
  by (cases st) (simp add: read_bucket_def)

lemma bp_globals_score:
  "fst st - 2 \<le> fst (bp_globals code st) \<and> fst (bp_globals code st) \<le> fst st"
  by (cases st) (simp add: bp_globals_def Let_def)

lemma bp_magic_score:
  "fst st - 2 \<le> fst (bp_magic code st) \<and> fst (bp_magic code st) \<le> fst st"
  by (cases st) (simp add: bp_magic_def Let_def)

lemma bp_exceptions_score:
  "fst st - 1 \<le> fst (bp_exceptions code st) \<and> fst (bp_exceptions code st) \<le> fst st + 1"
  by (cases st) (simp add: bp_exceptions_def Let_def)

lemma bp_with_score:
  "fst st \<le> fst (bp_with code st) \<and> fst (bp_with code st) \<le> fst st + 2"
  by (cases st) (simp add: bp_with_def Let_def)

lemma bp_bucket_score: "fst (bp_bucket st) = fst st"
  by (cases st) (simp add: bp_bucket_def)

lemma evaluate_syntactic_correctness_score:
  "fst (evaluate_syntactic_correctness parse code) \<in> {0, 2, 10}"
  by (cases "parse code") (simp_all add: evaluate_syntactic_correctness_def)


lemma evaluate_efficiency_score:
  "2 \<le> fst (evaluate_efficiency code) \<and> fst (evaluate_efficiency code) \<le> 9"
proof -
  define a where "a = eff_increment code (7, [])"
  define b where "b = eff_range_len code a"
  define c where "c = eff_nested code b"
  define d where "d = eff_comprehensions code c"
  have "fst (evaluate_efficiency code) = fst d"
    by (simp add: evaluate_efficiency_def eff_bucket_score a_def b_def c_def d_def)
  moreover have "6 \<le> fst a \<and> fst a \<le> 7"
    using eff_increment_score [of "(7, [])" code] by (simp add: a_def)
  moreover have "fst a - 1 \<le> fst b \<and> fst b \<le> fst a"
    unfolding b_def by (rule eff_range_len_score)
  moreover have "fst b - 3 \<le> fst c \<and> fst c \<le> fst b"
    unfolding c_def by (rule eff_nested_score)
  moreover have "fst c \<le> fst d \<and> fst d \<le> fst c + 2"
    unfolding d_def by (rule eff_comprehensions_score)
  ultimately show ?thesis by linarith
qed

lemma evaluate_readability_score:
  "0 \<le> fst (evaluate_readability code) \<and> fst (evaluate_readability code) \<le> 7"
proof -
  define a where "a = read_long_lines code (7, [])"
  define b where "b = read_short_vars code a"
  define c where "c = read_func_names code b"
  have "fst (evaluate_readability code) = fst c"
    by (simp add: evaluate_readability_def read_bucket_score read_indent_id a_def b_def c_def)
  moreover have "4 \<le> fst a \<and> fst a \<le> 7"
    using read_long_lines_score [of "(7, [])" code] by (simp add: a_def)
  moreover have "fst a - 2 \<le> fst b \<and> fst b \<le> fst a"
    unfolding b_def by (rule read_short_vars_score)
  moreover have "fst b - 2 \<le> fst c \<and> fst c \<le> fst b"
    unfolding c_def by (rule read_func_names_score)
  ultimately show ?thesis by linarith
qed

lemma bp_checks_score:
  "2 \<le> fst (bp_checks code) \<and> fst (bp_checks code) \<le> 10"
proof -
  define a where "a = bp_globals code (7, [], [])"
  define b where "b = bp_magic code a"
  define c where "c = bp_exceptions code b"
  define d where "d = bp_with code c"
  have "bp_checks code = d"
    by (simp add: bp_checks_def a_def b_def c_def d_def)
  moreover have "5 \<le> fst a \<and> fst a \<le> 7"
    using bp_globals_score [of "(7, [], [])" code] by (simp add: a_def)
  moreover have "fst a - 2 \<le> fst b \<and> fst b \<le> fst a"
    unfolding b_def by (rule bp_magic_score)
  moreover have "fst b - 1 \<le> fst c \<and> fst c \<le> fst b + 1"
    unfolding c_def by (rule bp_exceptions_score)
  moreover have "fst c \<le> fst d \<and> fst d \<le> fst c + 2"
    unfolding d_def by (rule bp_with_score)
  ultimately show ?thesis by simp
qed

lemma evaluate_best_practices_score:
  "2 \<le> fst (evaluate_best_practices code) \<and> fst (evaluate_best_practices code) \<le> 10"
  using bp_checks_score [of code] by (simp add: evaluate_best_practices_def bp_bucket_score)

lemma evaluate_criterion_score:
  "0 \<le> fst (evaluate_criterion code c) \<and> fst (evaluate_criterion code c) \<le> 10"
proof -
  have "0 \<le> fst (evaluate_documentation code) \<and> fst (evaluate_documentation code) \<le> 10"
    using evaluate_documentation_score [of code] by auto
  then show ?thesis
    using evaluate_efficiency_score [of code] evaluate_readability_score [of code]
      evaluate_best_practices_score [of code]
    unfolding evaluate_criterion_def by simp
qed

subsection \<open>Aggregator\<close>

lemma has_key_update: "has_key (AList.update k v res) k' = (k' = k \<or> has_key res k')"
  using AList.dom_update [of k v res] by (auto simp: has_key_def)

lemma has_key_map_of: "has_key res k = (map_of res k \<noteq> None)"
  by (simp add: has_key_def map_of_eq_None_iff)

lemma process_criteria_results:
  "fst (process_criteria code cs (res, t, m)) = process_results code cs res"
  by (induction cs arbitrary: res t m)
     (simp_all add: criterion_entry_def split_beta)

lemma set_dedup [simp]: "set (dedup xs) = set xs"
  by (induction xs rule: dedup.induct) auto

lemma dedup_eq_Nil [simp]: "(dedup xs = []) = (xs = [])"
  by (cases xs) simp_all

lemma filter_dedup: "filter P (dedup xs) = dedup (filter P xs)"
proof (induction xs rule: dedup.induct)
  case 1
  show ?case by simp
next
  case (2 x xs)
  have comm: "filter P (filter (\<lambda>y. y \<noteq> x) xs) = filter (\<lambda>y. y \<noteq> x) (filter P xs)"
    by (simp add: conj_commute)
  show ?case
  proof (cases "P x")
    case True
    with 2 comm show ?thesis by simp
  next
    case False
    then have "filter P (filter (\<lambda>y. y \<noteq> x) xs) = filter P xs"
      by (auto intro: filter_cong)
    with 2 False show ?thesis by simp
  qed
qed

lemma process_results_settled_step:
  assumes "settled code c res"
  shows "process_results code (c # cs) res = process_results code cs res"
  using assms by (auto simp: settled_def AList.update_triv split: if_splits)

lemma settled_after_step:
  "settled code c
     (if c = ''correctness'' \<and> has_key res ''correctness'' then res
      else AList.update c (criterion_entry code c) res)"
  by (simp add: settled_def has_key_update AList.update_conv')

lemma settled_preserved:
  assumes "settled code c res" and "y \<noteq> c"
  shows "settled code c (AList.update y v res)"
  using assms by (auto simp: settled_def has_key_update AList.update_conv' split: if_splits)

lemma process_results_filter:
  assumes "settled code c res"
  shows "process_results code (filter (\<lambda>y. y \<noteq> c) cs) res = process_results code cs res"
  using assms
proof (induction cs arbitrary: res)
  case Nil
  show ?case by simp
next
  case (Cons y cs)
  show ?case
  proof (cases "y = c")
    case True
    then show ?thesis
      using Cons.IH [OF Cons.prems] process_results_settled_step [OF Cons.prems, of cs]
      by simp
  next
    case False
    then show ?thesis
      using Cons.IH [OF Cons.prems] Cons.IH [OF settled_preserved [OF Cons.prems False]]
      by simp
  qed
qed

lemma process_results_dedup:
  "process_results code (dedup cs) res = process_results code cs res"
proof (induction cs arbitrary: res rule: dedup.induct)
  case 1
  show ?case by simp
next
  case (2 x xs)
  let ?res = "if x = ''correctness'' \<and> has_key res ''correctness'' then res
      else AList.update x (criterion_entry code x) res"
  have "process_results code (dedup (x # xs)) res
      = process_results code (dedup (filter (\<lambda>y. y \<noteq> x) xs)) ?res"
    by simp
  also have "\<dots> = process_results code (filter (\<lambda>y. y \<noteq> x) xs) ?res"
    by (rule "2.IH")
  also have "\<dots> = process_results code xs ?res"
    by (rule process_results_filter [OF settled_after_step])
  also have "\<dots> = process_results code (x # xs) res"
    by simp
  finally show ?case .
qed

lemma stamp_unevaluated_filter:
  assumes "c = ''correctness'' \<or> has_key res c"
  shows "stamp_unevaluated (filter (\<lambda>y. y \<noteq> c) cs) res = stamp_unevaluated cs res"
  using assms
proof (induction cs arbitrary: res)
  case Nil
  show ?case by simp
next
  case (Cons y cs)
  show ?case
  proof (cases "y = c")
    case True
    then show ?thesis using Cons.IH [OF Cons.prems] Cons.prems by auto
  next
    case False
    have "c = ''correctness'' \<or> has_key (AList.update y not_evaluated res) c"
      using Cons.prems by (auto simp: has_key_update)
    then show ?thesis
      using False Cons.IH [OF Cons.prems] Cons.IH [of "AList.update y not_evaluated res"]
      by simp
  qed
qed

lemma stamp_unevaluated_dedup:
  "stamp_unevaluated (dedup cs) res = stamp_unevaluated cs res"
proof (induction cs arbitrary: res rule: dedup.induct)
  case 1
  show ?case by simp
next
  case (2 x xs)
  let ?res = "if x \<noteq> ''correctness'' \<and> \<not> has_key res x
      then AList.update x not_evaluated res else res"
  have s: "x = ''correctness'' \<or> has_key ?res x"
    by (simp add: has_key_update)
  have "stamp_unevaluated (dedup (x # xs)) res
      = stamp_unevaluated (dedup (filter (\<lambda>y. y \<noteq> x) xs)) ?res"
    by simp
  also have "\<dots> = stamp_unevaluated (filter (\<lambda>y. y \<noteq> x) xs) ?res"
    by (rule "2.IH")
  also have "\<dots> = stamp_unevaluated xs ?res"
    by (rule stamp_unevaluated_filter [OF s])
  also have "\<dots> = stamp_unevaluated (x # xs) res"
    by simp
  finally show ?case .
qed

lemma valid_criteria_dedup:
  "valid_criteria (Some (dedup cs)) = dedup (valid_criteria (Some cs))"
proof (cases "cs = []")
  case True
  then show ?thesis
    by (simp add: valid_criteria_def effective_criteria_def DEFAULT_CRITERIA_def
        CRITERIA_DESCRIPTIONS_def has_key_def)
next
  case False
  then show ?thesis
    by (simp add: valid_criteria_def effective_criteria_def filter_dedup)
qed

lemma criteria_results_full_report:
  "criteria_results (full_report code valid (res, t, m)) = process_results code valid res"
  using process_criteria_results [of code valid res t m]
  by (simp add: full_report_def split_beta Let_def)

text \<open>
  Claim C3, as amended.  A criterion named more than once in the criteria list has one
  entry in \<open>criteria_results\<close>, at the place of its first occurrence: the dictionary of
  results for a list equals the one for the list without its duplicates.  (The claim
  as stated also equates \<open>total_score\<close> and \<open>max_score\<close>, which fails, as shown
  after the theorem.)
\<close>

theorem criteria_results_dedup:
  "criteria_results (evaluate_code parse code (Some cs))
     = criteria_results (evaluate_code parse code (Some (dedup cs)))"
proof -
  obtain sc msg where e: "evaluate_syntactic_correctness parse code = (sc, msg)"
    by (cases "evaluate_syntactic_correctness parse code")
  show ?thesis
    by (simp add: evaluate_code_def valid_criteria_dedup e Let_def
        criteria_results_full_report process_results_dedup stamp_unevaluated_dedup)
qed

text \<open>
  The loop over the criteria has no test for a name it has seen, except for
  "correctness": a second occurrence of another criterion is scored again, and its score
  and its 10 points are added again.
\<close>

theorem totals_count_duplicates:
  "total_score (evaluate_code (\<lambda>_. Parsed) ''pass'' (Some [''security'', ''security''])) = 10
   \<and> total_score (evaluate_code (\<lambda>_. Parsed) ''pass''
        (Some (dedup [''security'', ''security'']))) = 5
   \<and> max_score (evaluate_code (\<lambda>_. Parsed) ''pass'' (Some [''security'', ''security''])) = 20
   \<and> max_score (evaluate_code (\<lambda>_. Parsed) ''pass''
        (Some (dedup [''security'', ''security'']))) = 10"
  by (simp add: evaluate_code_def valid_criteria_def effective_criteria_def has_key_def
      CRITERIA_DESCRIPTIONS_def full_report_def evaluate_criterion_def Let_def)

lemma percentage_of_range:
  assumes "0 \<le> t" and "t \<le> m"
  shows "0 \<le> percentage_of t m \<and> percentage_of t m \<le> 100 \<and> (percentage_of t m = 0) = (t = 0)"
proof (cases "0 < m")
  case True
  then show ?thesis
    using assms
    by (simp add: percentage_of_def pos_divide_le_eq zero_le_divide_iff)
next
  case False
  with assms have "t = 0" by simp
  with False show ?thesis by (simp add: percentage_of_def)
qed

lemma process_criteria_totals:
  assumes "0 \<le> t" and "t \<le> m"
  shows "0 \<le> fst (snd (process_criteria code cs (res, t, m)))
     \<and> fst (snd (process_criteria code cs (res, t, m)))
         \<le> snd (snd (process_criteria code cs (res, t, m)))"
  using assms
proof (induction cs arbitrary: res t m)
  case Nil
  then show ?case by simp
next
  case (Cons c cs)
  have "0 \<le> t + fst (evaluate_criterion code c)"
    and "t + fst (evaluate_criterion code c) \<le> m + 10"
    using Cons.prems evaluate_criterion_score [of code c] by simp_all
  then show ?case
    using Cons.IH Cons.prems by (simp add: split_beta)
qed

lemma set_update_subset: "set (AList.update k v al) \<subseteq> insert (k, v) (set al)"
  by (induction al) auto

lemma scores_in_range_update:
  assumes "scores_in_range res" and "0 \<le> score v" and "score v \<le> 10"
  shows "scores_in_range (AList.update k v res)"
  using assms set_update_subset [of k v res]
  by (auto simp: scores_in_range_def list_all_iff)

lemma process_results_scores:
  assumes "scores_in_range res"
  shows "scores_in_range (process_results code cs res)"
  using assms
proof (induction cs arbitrary: res)
  case Nil
  then show ?case by simp
next
  case (Cons c cs)
  have "scores_in_range (AList.update c (criterion_entry code c) res)"
    using Cons.prems evaluate_criterion_score [of code c]
    by (intro scores_in_range_update) (simp_all add: criterion_entry_def)
  then show ?case
    using Cons.IH Cons.prems by simp
qed

lemma stamp_unevaluated_scores:
  assumes "scores_in_range res"
  shows "scores_in_range (stamp_unevaluated cs res)"
  using assms
proof (induction cs arbitrary: res)
  case Nil
  then show ?case by simp
next
  case (Cons c cs)
  have "scores_in_range (AList.update c not_evaluated res)"
    using Cons.prems by (intro scores_in_range_update) (simp_all add: not_evaluated_def)
  then show ?case
    using Cons.IH Cons.prems by simp
qed

lemma evaluate_code_scores_in_range:
  "scores_in_range (criteria_results (evaluate_code parse code criteria))"
proof -
  obtain sc msg where e: "evaluate_syntactic_correctness parse code = (sc, msg)"
    by (cases "evaluate_syntactic_correctness parse code")
  have "sc = 0 \<or> sc = 2 \<or> sc = 10"
    using evaluate_syntactic_correctness_score [of parse code] e by simp
  then have first: "scores_in_range
      (AList.update ''correctness'' \<lparr>score = sc, max_score_c = 10, message = msg\<rparr> [])"
    by (auto simp: scores_in_range_def)
  have empty: "scores_in_range []"
    by (simp add: scores_in_range_def)
  show ?thesis
    using process_results_scores [OF first] stamp_unevaluated_scores [OF first]
      process_results_scores [OF empty]
    by (simp add: evaluate_code_def e Let_def criteria_results_full_report)
qed

lemma stamp_unevaluated_keeps:
  assumes "has_key res c"
  shows "map_of (stamp_unevaluated cs res) c = map_of res c"
  using assms
proof (induction cs arbitrary: res)
  case Nil
  show ?case by simp
next
  case (Cons y cs)
  show ?case
  proof (cases "y \<noteq> ''correctness'' \<and> \<not> has_key res y")
    case True
    with Cons.prems have "y \<noteq> c" by auto
    moreover have "has_key (AList.update y not_evaluated res) c"
      using Cons.prems by (simp add: has_key_update)
    ultimately show ?thesis
      using True Cons.IH [of "AList.update y not_evaluated res"]
      by (simp add: AList.update_conv')
  next
    case False
    then show ?thesis using Cons.IH [OF Cons.prems] by auto
  qed
qed

lemma stamp_unevaluated_marks:
  assumes "c \<in> set cs" and "c \<noteq> ''correctness''" and "\<not> has_key res c"
  shows "map_of (stamp_unevaluated cs res) c = Some not_evaluated"
  using assms
proof (induction cs arbitrary: res)
  case Nil
  then show ?case by simp
next
  case (Cons y cs)
  show ?case
  proof (cases "y = c")
    case True
    have "has_key (AList.update c not_evaluated res) c"
      by (simp add: has_key_update)
    then have "map_of (stamp_unevaluated cs (AList.update c not_evaluated res)) c
        = map_of (AList.update c not_evaluated res) c"
      by (rule stamp_unevaluated_keeps)
    then show ?thesis
      using True Cons.prems by (simp add: AList.update_conv')
  next
    case False
    then have in_cs: "c \<in> set cs" using Cons.prems by simp
    show ?thesis
    proof (cases "y \<noteq> ''correctness'' \<and> \<not> has_key res y")
      case True
      have "\<not> has_key (AList.update y not_evaluated res) c"
        using False Cons.prems by (simp add: has_key_update)
      then show ?thesis
        using True Cons.IH [OF in_cs Cons.prems(2)] by simp
    next
      case False
      then show ?thesis
        using Cons.IH [OF in_cs Cons.prems(2) Cons.prems(3)] by auto
    qed
  qed
qed

text \<open>
  Claim C1.  When "correctness" is among the valid criteria and its score is below 3,
  every other valid criterion has in \<open>criteria_results\<close> the entry with score 0 and
  message "Not evaluated due to syntax errors"; \<open>max_score\<close> is 10 times the number of
  valid criteria; \<open>total_score\<close> is the score of correctness alone and \<open>percentage\<close> is
  that total divided by 10, times 100.
\<close>

theorem evaluate_code_short_circuit:
  assumes "''correctness'' \<in> set (valid_criteria criteria)"
    and "fst (evaluate_syntactic_correctness parse code) < 3"
  shows "(\<forall>c \<in> set (valid_criteria criteria). c \<noteq> ''correctness'' \<longrightarrow>
            map_of (criteria_results (evaluate_code parse code criteria)) c
              = Some \<lparr>score = 0, max_score_c = 10,
                       message = ''Not evaluated due to syntax errors''\<rparr>)
     \<and> max_score (evaluate_code parse code criteria)
         = 10 * int (length (valid_criteria criteria))
     \<and> total_score (evaluate_code parse code criteria)
         = fst (evaluate_syntactic_correctness parse code)
     \<and> percentage (evaluate_code parse code criteria)
         = of_int (total_score (evaluate_code parse code criteria)) / 10 * 100"
proof -
  obtain sc msg where e: "evaluate_syntactic_correctness parse code = (sc, msg)"
    by (cases "evaluate_syntactic_correctness parse code")
  let ?res = "AList.update ''correctness'' \<lparr>score = sc, max_score_c = 10, message = msg\<rparr> []"
  have r: "evaluate_code parse code criteria =
      \<lparr>total_score = sc, max_score = int (length (valid_criteria criteria)) * 10,
       percentage = percentage_of sc 10,
       criteria_results = stamp_unevaluated (valid_criteria criteria) ?res,
       summary = ''Code has syntax errors that need to be fixed before other aspects can be evaluated.''\<rparr>"
    using assms e by (simp add: evaluate_code_def Let_def)
  have "map_of (stamp_unevaluated (valid_criteria criteria) ?res) c = Some not_evaluated"
    if "c \<in> set (valid_criteria criteria)" and "c \<noteq> ''correctness''" for c
    using that by (intro stamp_unevaluated_marks) (simp_all add: has_key_def)
  then show ?thesis
    by (simp add: r e not_evaluated_def percentage_of_def)
qed

theorem evaluate_code_short_circuit_witness:
  "''correctness'' \<in> set (valid_criteria (Some [''readability'', ''correctness'', ''bogus'', ''security'']))
   \<and> fst (evaluate_syntactic_correctness (\<lambda>_. SyntaxError (Some 1) ''invalid syntax'') ''('') < 3
   \<and> map_of (criteria_results (evaluate_code (\<lambda>_. SyntaxError (Some 1) ''invalid syntax'') ''(''
        (Some [''readability'', ''correctness'', ''bogus'', ''security'']))) ''readability''
       = Some \<lparr>score = 0, max_score_c = 10, message = ''Not evaluated due to syntax errors''\<rparr>
   \<and> map_of (criteria_results (evaluate_code (\<lambda>_. SyntaxError (Some 1) ''invalid syntax'') ''(''
        (Some [''readability'', ''correctness'', ''bogus'', ''security'']))) ''security''
       = Some \<lparr>score = 0, max_score_c = 10, message = ''Not evaluated due to syntax errors''\<rparr>
   \<and> max_score (evaluate_code (\<lambda>_. SyntaxError (Some 1) ''invalid syntax'') ''(''
        (Some [''readability'', ''correctness'', ''bogus'', ''security''])) = 30
   \<and> total_score (evaluate_code (\<lambda>_. SyntaxError (Some 1) ''invalid syntax'') ''(''
        (Some [''readability'', ''correctness'', ''bogus'', ''security''])) = 0
   \<and> percentage (evaluate_code (\<lambda>_. SyntaxError (Some 1) ''invalid syntax'') ''(''
        (Some [''readability'', ''correctness'', ''bogus'', ''security''])) = 0"
proof -
  let ?p = "\<lambda>_ :: string. SyntaxError (Some 1) ''invalid syntax''"
  let ?cs = "Some [''readability'', ''correctness'', ''bogus'', ''security'']"
  have v: "valid_criteria ?cs = [''readability'', ''correctness'', ''security'']"
    by (simp add: valid_criteria_def effective_criteria_def has_key_def CRITERIA_DESCRIPTIONS_def)
  have h1: "''correctness'' \<in> set (valid_criteria ?cs)"
    by (simp add: v)
  have h2: "fst (evaluate_syntactic_correctness ?p ''('') < 3"
    by (simp add: evaluate_syntactic_correctness_def)
  have s: "fst (evaluate_syntactic_correctness ?p ''('') = 0"
    by (simp add: evaluate_syntactic_correctness_def)
  show ?thesis
    using h1 h2 evaluate_code_short_circuit [OF h1 h2] by (simp add: v s)
qed

lemma full_report_fields:
  "total_score (full_report code valid st) = fst (snd (process_criteria code valid st))"
  "max_score (full_report code valid st) = snd (snd (process_criteria code valid st))"
  "percentage (full_report code valid st)
     = percentage_of (fst (snd (process_criteria code valid st)))
         (snd (snd (process_criteria code valid st)))"
  by (simp_all add: full_report_def split_beta Let_def)

lemma percentage_denominator:
  "percentage (evaluate_code parse code criteria)
     = percentage_of (total_score (evaluate_code parse code criteria))
         (max_possible_final parse code criteria)"
proof -
  obtain sc msg where e: "evaluate_syntactic_correctness parse code = (sc, msg)"
    by (cases "evaluate_syntactic_correctness parse code")
  show ?thesis
    by (simp add: evaluate_code_def max_possible_final_def e Let_def full_report_fields)
qed

lemma evaluate_code_totals:
  "0 \<le> total_score (evaluate_code parse code criteria)
   \<and> total_score (evaluate_code parse code criteria) \<le> max_possible_final parse code criteria"
proof -
  obtain sc msg where e: "evaluate_syntactic_correctness parse code = (sc, msg)"
    by (cases "evaluate_syntactic_correctness parse code")
  have sc: "sc = 0 \<or> sc = 2 \<or> sc = 10"
    using evaluate_syntactic_correctness_score [of parse code] e by simp
  let ?res = "AList.update ''correctness'' \<lparr>score = sc, max_score_c = 10, message = msg\<rparr> []"
  have a: "0 \<le> fst (snd (process_criteria code (valid_criteria criteria) (?res, sc, 10)))
     \<and> fst (snd (process_criteria code (valid_criteria criteria) (?res, sc, 10)))
         \<le> snd (snd (process_criteria code (valid_criteria criteria) (?res, sc, 10)))"
    using sc by (intro process_criteria_totals) auto
  have b: "0 \<le> fst (snd (process_criteria code (valid_criteria criteria) ([], 0, 0)))
     \<and> fst (snd (process_criteria code (valid_criteria criteria) ([], 0, 0)))
         \<le> snd (snd (process_criteria code (valid_criteria criteria) ([], 0, 0)))"
    by (intro process_criteria_totals) auto
  show ?thesis
    using a b sc
    by (auto simp: evaluate_code_def max_possible_final_def e Let_def full_report_fields)
qed

text \<open>
  Claim C2, as amended.  The percentage of every report lies within 0 and 100; it is 0
  when the denominator (the accumulated \<open>max_possible\<close>) is 0, and in general it is 0
  exactly when \<open>total_score\<close> is 0.  (The claim as stated, that it is 0 only when the
  denominator is 0, fails, as shown after the theorem.)
\<close>

theorem percentage_range:
  "0 \<le> percentage (evaluate_code parse code criteria)
   \<and> percentage (evaluate_code parse code criteria) \<le> 100
   \<and> (percentage (evaluate_code parse code criteria) = 0)
       = (total_score (evaluate_code parse code criteria) = 0)
   \<and> (max_possible_final parse code criteria = 0
        \<longrightarrow> percentage (evaluate_code parse code criteria) = 0)"
proof -
  let ?t = "total_score (evaluate_code parse code criteria)"
  let ?m = "max_possible_final parse code criteria"
  have t: "0 \<le> ?t" "?t \<le> ?m"
    using evaluate_code_totals [of parse code criteria] by simp_all
  have "0 \<le> percentage_of ?t ?m \<and> percentage_of ?t ?m \<le> 100
      \<and> (percentage_of ?t ?m = 0) = (?t = 0)"
    using t by (rule percentage_of_range)
  moreover have "?m = 0 \<longrightarrow> ?t = 0"
    using t by simp
  ultimately show ?thesis
    by (auto simp: percentage_denominator)
qed

theorem percentage_range_witness:
  "max_possible_final (\<lambda>_. Parsed) ''pass'' (Some [''bogus'']) = 0
   \<and> percentage (evaluate_code (\<lambda>_. Parsed) ''pass'' (Some [''bogus''])) = 0"
proof -
  have "max_possible_final (\<lambda>_. Parsed) ''pass'' (Some [''bogus'']) = 0"
    by (simp add: max_possible_final_def valid_criteria_def effective_criteria_def has_key_def
        CRITERIA_DESCRIPTIONS_def)
  then show ?thesis
    using percentage_range [of "\<lambda>_. Parsed" "''pass''" "Some [''bogus'']"] by simp
qed

text \<open>
  A syntax error with "correctness" as the only criterion: the total is 0 and the
  denominator is 10, so the percentage is 0 with a denominator that is not.
\<close>

theorem percentage_zero_with_denominator_ten:
  "percentage (evaluate_code (\<lambda>_. SyntaxError (Some 1) ''invalid syntax'') ''(''
      (Some [''correctness''])) = 0
   \<and> max_possible_final (\<lambda>_. SyntaxError (Some 1) ''invalid syntax'') ''(''
      (Some [''correctness'']) = 10"
  by (simp add: evaluate_code_def max_possible_final_def valid_criteria_def
      effective_criteria_def has_key_def CRITERIA_DESCRIPTIONS_def
      evaluate_syntactic_correctness_def percentage_of_def Let_def)

text \<open>
  Outside the short circuit \<open>max_score\<close> counts 10 points for every occurrence of a
  criterion other than "correctness" in the list of valid criteria, repeated ones
  included, and 10 for "correctness" when it is there.
\<close>

lemma process_criteria_max_possible:
  assumes "has_key res ''correctness'' \<or> ''correctness'' \<notin> set cs"
  shows "snd (snd (process_criteria code cs (res, t, m)))
     = m + 10 * int (length (filter (\<lambda>c. c \<noteq> ''correctness'') cs))"
  using assms
proof (induction cs arbitrary: res t m)
  case Nil
  show ?case by simp
next
  case (Cons c cs)
  show ?case
  proof (cases "c = ''correctness''")
    case True
    with Cons.prems have "has_key res ''correctness''" by simp
    then show ?thesis
      using True Cons.IH [of res t m] by simp
  next
    case False
    have "has_key (AList.update c v res) ''correctness'' \<or> ''correctness'' \<notin> set cs" for v
      using Cons.prems False by (auto simp: has_key_update)
    then show ?thesis
      using False Cons.IH by (simp add: split_beta)
  qed
qed

lemma max_score_counts_occurrences:
  assumes "\<not> (''correctness'' \<in> set (valid_criteria criteria)
             \<and> fst (evaluate_syntactic_correctness parse code) < 3)"
  shows "max_score (evaluate_code parse code criteria)
     = 10 * int (length (filter (\<lambda>c. c \<noteq> ''correctness'') (valid_criteria criteria)))
       + (if ''correctness'' \<in> set (valid_criteria criteria) then 10 else 0)"
proof -
  obtain sc msg where e: "evaluate_syntactic_correctness parse code = (sc, msg)"
    by (cases "evaluate_syntactic_correctness parse code")
  let ?res = "AList.update ''correctness'' \<lparr>score = sc, max_score_c = 10, message = msg\<rparr> []"
  have a: "snd (snd (process_criteria code (valid_criteria criteria) (?res, sc, 10)))
      = 10 + 10 * int (length (filter (\<lambda>c. c \<noteq> ''correctness'') (valid_criteria criteria)))"
    by (rule process_criteria_max_possible) (simp add: has_key_def)
  have b: "''correctness'' \<notin> set (valid_criteria criteria) \<Longrightarrow>
      snd (snd (process_criteria code (valid_criteria criteria) ([], 0, 0)))
      = 0 + 10 * int (length (filter (\<lambda>c. c \<noteq> ''correctness'') (valid_criteria criteria)))"
    by (rule process_criteria_max_possible) simp
  show ?thesis
    using assms a b by (auto simp: evaluate_code_def e Let_def full_report_fields)
qed

text \<open>
  Claim C6.  For a text that parses, a call with no criteria (or with the empty list)
  gives a report whose \<open>criteria_results\<close> has exactly the keys correctness, efficiency,
  readability, documentation, best_practices, in that order of insertion, and whose
  \<open>max_score\<close> is 50.
\<close>

theorem default_criteria_report:
  assumes "parse code = Parsed"
  shows "map fst (criteria_results (evaluate_code parse code None))
       = [''correctness'', ''efficiency'', ''readability'', ''documentation'', ''best_practices'']
     \<and> max_score (evaluate_code parse code None) = 50
     \<and> map fst (criteria_results (evaluate_code parse code (Some [])))
       = [''correctness'', ''efficiency'', ''readability'', ''documentation'', ''best_practices'']
     \<and> max_score (evaluate_code parse code (Some [])) = 50"
proof -
  have v: "valid_criteria None = DEFAULT_CRITERIA" "valid_criteria (Some []) = DEFAULT_CRITERIA"
    by (simp_all add: valid_criteria_def effective_criteria_def has_key_def
        CRITERIA_DESCRIPTIONS_def DEFAULT_CRITERIA_def)
  have e: "evaluate_syntactic_correctness parse code = (10, ''No syntax errors detected.'')"
    using assms by (simp add: evaluate_syntactic_correctness_def)
  show ?thesis
    by (simp add: evaluate_code_def v e Let_def full_report_def split_beta
        DEFAULT_CRITERIA_def has_key_def)
qed

theorem default_criteria_report_witness:
  "map fst (criteria_results (evaluate_code (\<lambda>_. Parsed) ''pass'' None))
       = [''correctness'', ''efficiency'', ''readability'', ''documentation'', ''best_practices'']
   \<and> max_score (evaluate_code (\<lambda>_. Parsed) ''pass'' None) = 50"
  using default_criteria_report [of "\<lambda>_. Parsed" "''pass''"] by simp

text \<open>
  Claim C10.  Every score in the \<open>criteria_results\<close> of a report is at most 10: the
  bonuses of the analyzers cannot push a score above it, for efficiency is at most 9,
  best practices at most 10 and readability at most 7.
\<close>

theorem scores_at_most_ten:
  "(\<forall>(c, r) \<in> set (criteria_results (evaluate_code parse code criteria)). score r \<le> 10)
   \<and> fst (evaluate_efficiency code) \<le> 9
   \<and> fst (evaluate_best_practices code) \<le> 10
   \<and> fst (evaluate_readability code) \<le> 7"
  using evaluate_code_scores_in_range [of parse code criteria]
    evaluate_efficiency_score [of code] evaluate_best_practices_score [of code]
    evaluate_readability_score [of code]
  by (auto simp: scores_in_range_def list_all_iff)

theorem scores_at_most_ten_witness:
  "list_all (\<lambda>(c, r). score r \<le> 10)
     (criteria_results (evaluate_code (\<lambda>_. Parsed) ''pass'' None))
   \<and> length (criteria_results (evaluate_code (\<lambda>_. Parsed) ''pass'' None)) = 5"
proof -
  have "length (map fst (criteria_results (evaluate_code (\<lambda>_. Parsed) ''pass'' None))) = 5"
    by (simp add: evaluate_code_def valid_criteria_def effective_criteria_def has_key_def
        CRITERIA_DESCRIPTIONS_def DEFAULT_CRITERIA_def evaluate_syntactic_correctness_def
        Let_def full_report_def split_beta del: length_map)
  then show ?thesis
    using scores_at_most_ten [of "\<lambda>_. Parsed" "''pass''" None]
    by (simp add: list_all_iff)
qed

text \<open>The three upper bounds on the analyzers' scores are reached.\<close>

lemma analyzer_maxima_attained:
  "fst (evaluate_efficiency ''[a for a in b] + [c for c in d]'') = 9"
  "fst (evaluate_best_practices ''try:except with with'') = 10"
  "fst (evaluate_readability ''pass'') = 7"
  by code_simp+

subsection \<open>Readability: the indentation penalty\<close>

text \<open>
  Claim C4.  A text with an indented line whose width is not a multiple of 4 should lose
  a flat 2 points of readability.  The analyzer does not do it: on a function whose body
  is indented by 2 blanks the list of widths it computes is empty, the running score
  stays at 7 and the result is 7.  (By \<open>read_indent_id\<close> the check changes no score on
  any text.)
\<close>

theorem indent_penalty_not_applied:
  "list_ex (\<lambda>i. i mod 4 \<noteq> 0) (indents_multiline (''def f():'' @ [CHR 0x0A] @ ''  return 1''))
   \<and> indents (''def f():'' @ [CHR 0x0A] @ ''  return 1'') = []
   \<and> read_indent (''def f():'' @ [CHR 0x0A] @ ''  return 1'') (7, []) = (7, [])
   \<and> evaluate_readability (''def f():'' @ [CHR 0x0A] @ ''  return 1'')
       = (7, ''Code has reasonable readability but could be improved. '')"
  by code_simp

subsection \<open>Documentation: a text without code lines\<close>

lemma doc_ratio_no_code_lines:
  assumes "snd (count_doc_lines (split_lines code) (0, 0)) = 0"
  shows "doc_ratio code
     = of_nat (length (findall docstring_pattern code)
               + fst (count_doc_lines (split_lines code) (0, 0))) / 1"
  using assms by (simp add: doc_ratio_def split_beta Let_def)

lemma evaluate_documentation_no_code_lines:
  assumes "snd (count_doc_lines (split_lines code) (0, 0)) = 0"
  shows "evaluate_documentation code =
     (if findall docstring_pattern code \<noteq> []
      then (9, ''Code is well-documented with clear explanations.'')
      else if 0 < fst (count_doc_lines (split_lines code) (0, 0))
      then (6, ''Code has adequate documentation but could be improved.'')
      else (3, ''Code lacks sufficient documentation.''))"
proof -
  define d where "d = length (findall docstring_pattern code)"
  define k where "k = fst (count_doc_lines (split_lines code) (0, 0))"
  have r: "doc_ratio code = of_nat (d + k)"
    using doc_ratio_no_code_lines [OF assms] by (simp add: d_def k_def)
  have ge: "(1 :: rat) \<le> of_nat (d + k)" if "0 < d + k"
  proof -
    have "(of_nat 1 :: rat) \<le> of_nat (d + k)"
      using that by (subst of_nat_le_iff) arith
    then show ?thesis by simp
  qed
  have dd: "(findall docstring_pattern code \<noteq> []) = (0 < d)"
    by (simp add: d_def)
  show ?thesis
  proof (cases "0 < d")
    case True
    then have "(3 / 10 :: rat) \<le> of_nat (d + k)"
      using ge by fastforce
    then show ?thesis
      using True unfolding evaluate_documentation_def Let_def r dd d_def [symmetric]
      by simp
  next
    case False
    then have d0: "d = 0" by simp
    show ?thesis
    proof (cases "0 < k")
      case True
      then have "(15 / 100 :: rat) \<le> of_nat (d + k)"
        using ge by fastforce
      then show ?thesis
        using True d0 unfolding evaluate_documentation_def Let_def r dd d_def [symmetric]
          k_def [symmetric]
        by simp
    next
      case False
      then show ?thesis
        using d0 unfolding evaluate_documentation_def Let_def r dd d_def [symmetric]
          k_def [symmetric]
        by simp
    qed
  qed
qed

text \<open>
  Claim C7.  For a text with no code line the documentation ratio is computed against
  the denominator 1: it is the number of docstrings plus the number of comment lines.
  The band then depends on these two numbers alone: score 9 when there is a docstring,
  else 6 when there is a comment line, else 3.  On every text the top band is reached
  exactly when the ratio is at least 3/10 and a docstring is found.  There is a text
  made of one single-line comment and nothing else that reaches the top band, score 9;
  its comment holds a span between triple quotes, which counts as a docstring.
\<close>

theorem documentation_zero_code_lines:
  "(snd (count_doc_lines (split_lines code) (0, 0)) = 0 \<longrightarrow>
      doc_ratio code
        = of_nat (length (findall docstring_pattern code)
                  + fst (count_doc_lines (split_lines code) (0, 0))) / 1
      \<and> evaluate_documentation code =
         (if findall docstring_pattern code \<noteq> []
          then (9, ''Code is well-documented with clear explanations.'')
          else if 0 < fst (count_doc_lines (split_lines code) (0, 0))
          then (6, ''Code has adequate documentation but could be improved.'')
          else (3, ''Code lacks sufficient documentation.'')))
   \<and> (fst (evaluate_documentation code) = 9)
       = (3 / 10 \<le> doc_ratio code \<and> findall docstring_pattern code \<noteq> [])
   \<and> (\<exists>c. split_lines c = [c] \<and> startswith c ''#''
          \<and> count_doc_lines (split_lines c) (0, 0) = (1, 0)
          \<and> evaluate_documentation c = (9, ''Code is well-documented with clear explanations.''))"
proof -
  let ?c = "[CHR ''#'', CHR '' '', CHR 0x22, CHR 0x22, CHR 0x22, CHR ''x'',
             CHR 0x22, CHR 0x22, CHR 0x22]"
  have "split_lines ?c = [?c] \<and> startswith ?c ''#''
      \<and> count_doc_lines (split_lines ?c) (0, 0) = (1, 0)
      \<and> evaluate_documentation ?c = (9, ''Code is well-documented with clear explanations.'')"
    by code_simp
  then have ex: "\<exists>c. split_lines c = [c] \<and> startswith c ''#''
      \<and> count_doc_lines (split_lines c) (0, 0) = (1, 0)
      \<and> evaluate_documentation c = (9, ''Code is well-documented with clear explanations.'')"
    by blast
  have band: "(fst (evaluate_documentation code) = 9)
      = (3 / 10 \<le> doc_ratio code \<and> findall docstring_pattern code \<noteq> [])"
    by (simp add: evaluate_documentation_def Let_def)
  show ?thesis
    using ex band doc_ratio_no_code_lines [of code] evaluate_documentation_no_code_lines [of code]
    by blast
qed

theorem documentation_zero_code_lines_witness:
  "doc_ratio
       [CHR ''#'', CHR '' '', CHR 0x22, CHR 0x22, CHR 0x22, CHR ''x'', CHR 0x22, CHR 0x22, CHR 0x22]
      = 2
   \<and> evaluate_documentation
       [CHR ''#'', CHR '' '', CHR 0x22, CHR 0x22, CHR 0x22, CHR ''x'', CHR 0x22, CHR 0x22, CHR 0x22]
      = (9, ''Code is well-documented with clear explanations.'')
   \<and> doc_ratio ''# a note'' = 1
   \<and> evaluate_documentation ''# a note''
      = (6, ''Code has adequate documentation but could be improved.'')
   \<and> doc_ratio [CHR 0x0A] = 0
   \<and> evaluate_documentation [CHR 0x0A] = (3, ''Code lacks sufficient documentation.'')"
proof -
  let ?a = "[CHR ''#'', CHR '' '', CHR 0x22, CHR 0x22, CHR 0x22, CHR ''x'',
             CHR 0x22, CHR 0x22, CHR 0x22]"
  let ?b = "''# a note''"
  let ?e = "[CHR 0x0A]"
  have ha: "count_doc_lines (split_lines ?a) (0, 0) = (1, 0)"
    and na: "length (findall docstring_pattern ?a) = 1"
    by code_simp+
  have hb: "count_doc_lines (split_lines ?b) (0, 0) = (1, 0)"
    and nb: "findall docstring_pattern ?b = []"
    by code_simp+
  have he: "count_doc_lines (split_lines ?e) (0, 0) = (0, 0)"
    and ne: "findall docstring_pattern ?e = []"
    by code_simp+
  have fa: "findall docstring_pattern ?a \<noteq> []"
    using na by auto
  have a: "doc_ratio ?a = 2 \<and> evaluate_documentation ?a
      = (9, ''Code is well-documented with clear explanations.'')"
    using documentation_zero_code_lines [of ?a] by (simp add: ha na fa)
  have b: "doc_ratio ?b = 1 \<and> evaluate_documentation ?b
      = (6, ''Code has adequate documentation but could be improved.'')"
    using documentation_zero_code_lines [of ?b] by (simp add: hb nb)
  have e: "doc_ratio ?e = 0 \<and> evaluate_documentation ?e
      = (3, ''Code lacks sufficient documentation.'')"
    using documentation_zero_code_lines [of ?e] by (simp add: he ne)
  show ?thesis
    using a b e by simp
qed

subsection \<open>Best practices: exception handling\<close>

lemma bp_with_fst:
  "fst (bp_with code st) = fst st + int (min (count_sub code ''with'') 2)"
  by (cases st) (simp add: bp_with_def Let_def)

text \<open>
  Claim C9.  When the text has as many "try:" as "except", at least one, and no
  "except:", the best-practices analyzer adds 1 to its score and notes "Uses proper
  exception handling" among the positives; when the text contains "except:", it
  subtracts 1 and notes the bare except clauses among the issues.
\<close>

theorem exception_handling_step:
  "(0 < count_sub code ''try:'' \<and> count_sub code ''try:'' = count_sub code ''except''
      \<and> \<not> contains code ''except:'' \<longrightarrow>
        bp_exceptions code (sc, issues, positives)
          = (sc + 1, issues, positives @ [''Uses proper exception handling''])
        \<and> fst (evaluate_best_practices code)
          = fst (bp_magic code (bp_globals code (7, [], []))) + 1
            + int (min (count_sub code ''with'') 2))
   \<and> (contains code ''except:'' \<longrightarrow>
        bp_exceptions code (sc, issues, positives)
          = (sc - 1,
             issues @ [''Uses bare except clauses without specifying exception types''],
             positives)
        \<and> fst (evaluate_best_practices code)
          = fst (bp_magic code (bp_globals code (7, [], []))) - 1
            + int (min (count_sub code ''with'') 2))"
proof -
  obtain s0 i0 p0 where g: "bp_magic code (bp_globals code (7, [], [])) = (s0, i0, p0)"
    by (cases "bp_magic code (bp_globals code (7, [], []))")
  show ?thesis
    by (simp add: evaluate_best_practices_def bp_checks_def bp_bucket_score bp_with_fst g
        bp_exceptions_def Let_def)
qed

theorem exception_handling_step_witness:
  "evaluate_best_practices
     (''try:'' @ [CHR 0x0A] @ ''    f()'' @ [CHR 0x0A] @ ''except ValueError:'' @ [CHR 0x0A] @ ''    pass'')
     = (8, ''Code follows best practices well. Uses proper exception handling'')
   \<and> evaluate_best_practices
     (''try:'' @ [CHR 0x0A] @ ''    f()'' @ [CHR 0x0A] @ ''except:'' @ [CHR 0x0A] @ ''    pass'')
     = (6, ''Code follows most best practices but has some issues. ''
           @ ''Uses bare except clauses without specifying exception types'')"
proof -
  let ?a = "''try:'' @ [CHR 0x0A] @ ''    f()'' @ [CHR 0x0A] @ ''except ValueError:''
            @ [CHR 0x0A] @ ''    pass''"
  let ?b = "''try:'' @ [CHR 0x0A] @ ''    f()'' @ [CHR 0x0A] @ ''except:'' @ [CHR 0x0A] @ ''    pass''"
  have ha: "0 < count_sub ?a ''try:'' \<and> count_sub ?a ''try:'' = count_sub ?a ''except''
      \<and> \<not> contains ?a ''except:''"
    by code_simp
  have hb: "contains ?b ''except:''"
    by code_simp
  have ga: "bp_magic ?a (bp_globals ?a (7, [], [])) = (7, [], [])"
    by code_simp
  have gb: "bp_magic ?b (bp_globals ?b (7, [], [])) = (7, [], [])"
    by code_simp
  have sa: "bp_exceptions ?a (7, [], []) = (8, [], [''Uses proper exception handling''])"
    using ha exception_handling_step [of ?a 7 "[]" "[]"] by simp
  have sb: "bp_exceptions ?b (7, [], [])
      = (6, [''Uses bare except clauses without specifying exception types''], [])"
    using hb exception_handling_step [of ?b 7 "[]" "[]"] by simp
  have wa: "bp_with ?a (8, [], [''Uses proper exception handling''])
      = (8, [], [''Uses proper exception handling''])"
    by code_simp
  have wb: "bp_with ?b (6, [''Uses bare except clauses without specifying exception types''], [])
      = (6, [''Uses bare except clauses without specifying exception types''], [])"
    by code_simp
  have "evaluate_best_practices ?a
      = bp_bucket (8, [], [''Uses proper exception handling''])"
    unfolding evaluate_best_practices_def bp_checks_def ga sa wa ..
  moreover have "evaluate_best_practices ?b
      = bp_bucket (6, [''Uses bare except clauses without specifying exception types''], [])"
    unfolding evaluate_best_practices_def bp_checks_def gb sb wb ..
  ultimately show ?thesis
    by (simp add: bp_bucket_def)
qed

end
